theory Spec2Isabelle
  imports Main "HOL-Library.Char_ord" "HOL-Library.List_Lexorder"
begin

unbundle bit_operations_syntax

section \<open>The model registry of voicevox\_engine/aivm\_manager.py\<close>

text \<open>
  A shallow embedding of the class \<open>AivmManager\<close>. Python integers are \<open>int\<close>,
  Python strings are \<open>string\<close> (bytes of the UTF-8 text), a raised exception is the
  \<open>Inl\<close> of a sum, and the two pieces of mutable state of the class (the install
  directory on disk and the cache \<open>self._installed_aivm_infos\<close>) are the fields of
  the record \<open>manager\<close>, passed in and returned. What lies outside the repository
  (hashlib, aivmlib's readers, semver, httpx, the operating system's write faults) is
  the record \<open>env\<close>, a parameter of every operation that uses it.
\<close>

subsection \<open>Exceptions\<close>

text \<open>
  The \<open>detail\<close> of an \<open>HTTPException\<close> is a Japanese message in the source; the
  model keeps one constructor for each distinct message.
\<close>

datatype http_detail =
    ModelNameDoesNotExist
  | InvalidAivmxFile
  | ManifestVersionNotSupported
  | ModelArchitectureNotSupported
  | WriteFailedNoSpace
  | WriteFailedPermissionDenied
  | WriteFailedReadOnly
  | WriteFailed
  | InvalidAivisHubUrl
  | DownloadFailed
  | ModelNotInstalled
  | MustHaveOneModel

datatype exn =
    ValueError string
  | IndexError
  | KeyError
  | OSError string
  | AivmValidationError
  | HTTPError
  | HTTPException int http_detail

definition and_then :: "exn + 'a \<Rightarrow> ('a \<Rightarrow> exn + 'b) \<Rightarrow> exn + 'b" where
  "and_then r f = (case r of Inl e \<Rightarrow> Inl e | Inr v \<Rightarrow> f v)"

subsection \<open>Strings\<close>

definition startswith :: "string \<Rightarrow> string \<Rightarrow> bool" where
  "startswith s p = (take (length p) s = p)"

fun contains :: "string \<Rightarrow> string \<Rightarrow> bool" where
  "contains [] sub = (sub = [])"
| "contains (c # cs) sub = (startswith (c # cs) sub \<or> contains cs sub)"

text \<open>\<open>str.lower\<close> on the ASCII letters; other bytes are left as they are.\<close>

definition lower_char :: "char \<Rightarrow> char" where
  "lower_char c =
     (if CHR ''A'' \<le> c \<and> c \<le> CHR ''Z'' then char_of (of_char c + (32::nat)) else c)"

definition lower :: "string \<Rightarrow> string" where
  "lower s = map lower_char s"

text \<open>\<open>s.split(sep)\<close> for a one-character separator: never an empty list.\<close>

fun split :: "char \<Rightarrow> string \<Rightarrow> string list" where
  "split sep [] = [[]]"
| "split sep (c # cs) =
     (if c = sep then [] # split sep cs
      else (case split sep cs of
              [] \<Rightarrow> [[c]]
            | p # ps \<Rightarrow> (c # p) # ps))"

definition is_digit :: "char \<Rightarrow> bool" where
  "is_digit c = (CHR ''0'' \<le> c \<and> c \<le> CHR ''9'')"

definition digit_value :: "char \<Rightarrow> int" where
  "digit_value c = int (of_char c) - 48"

definition is_space :: "char \<Rightarrow> bool" where
  "is_space c = (c = CHR '' '' \<or> (9::nat) \<le> of_char c \<and> of_char c \<le> (13::nat)
     \<or> (28::nat) \<le> of_char c \<and> of_char c \<le> (31::nat))"

definition strip :: "string \<Rightarrow> string" where
  "strip s = rev (dropWhile is_space (rev (dropWhile is_space s)))"

text \<open>
  \<open>int(s)\<close> on ASCII text: surrounding whitespace, an optional sign, then decimal
  digits, where single underscores may stand between two digits.
\<close>

fun py_digits :: "int \<Rightarrow> string \<Rightarrow> int option" where
  "py_digits acc [] = Some acc"
| "py_digits acc [c] = (if is_digit c then Some (10 * acc + digit_value c) else None)"
| "py_digits acc (c # d # cs) =
     (if is_digit c then py_digits (10 * acc + digit_value c) (d # cs)
      else if c = CHR ''_'' \<and> is_digit d then py_digits acc (d # cs)
      else None)"

definition py_unsigned :: "string \<Rightarrow> int option" where
  "py_unsigned body =
     (case body of
        [] \<Rightarrow> None
      | d # _ \<Rightarrow> if is_digit d then py_digits 0 body else None)"

definition py_int :: "string \<Rightarrow> exn + int" where
  "py_int s =
     (let parsed =
        (case strip s of
           [] \<Rightarrow> None
         | c # cs \<Rightarrow>
             if c = CHR ''-'' then map_option uminus (py_unsigned cs)
             else if c = CHR ''+'' then py_unsigned cs
             else py_unsigned (c # cs))
      in case parsed of
           None \<Rightarrow> Inl (ValueError ''invalid literal for int() with base 10'')
         | Some v \<Rightarrow> Inr v)"

subsection \<open>The manifest of a package (aivmlib.schemas.aivm\_manifest)\<close>

text \<open>
  Modelled from the spec: the manifest classes of aivmlib are not in the repository; the
  records hold the fields the manager reads, with the types its code uses them at. A
  UUID field holds \<open>str(uuid)\<close>. \<open>OtherArchitecture\<close> stands for every member of
  \<open>ModelArchitecture\<close> that is not in \<open>SUPPORTED_MODEL_ARCHITECTURES\<close>.
\<close>

datatype ModelArchitecture =
    StyleBertVITS2
  | StyleBertVITS2JPExtra
  | OtherArchitecture string

record AivmManifestVoiceSample =
  audio :: string
  transcript :: string

record AivmManifestSpeakerStyle =
  style_name :: string
  style_icon :: "string option"
  local_id :: int
  voice_samples :: "AivmManifestVoiceSample list"

record AivmManifestSpeaker =
  speaker_name :: string
  speaker_icon :: string
  supported_languages :: "string list"
  speaker_uuid :: string
  styles :: "AivmManifestSpeakerStyle list"

record AivmManifest =
  manifest_version :: string
  name :: string
  version :: string
  license :: "string option"
  model_architecture :: ModelArchitecture
  uuid :: string
  speakers :: "AivmManifestSpeaker list"

subsection \<open>The registry's entries (voicevox\_engine.metas.Metas, voicevox\_engine.model)\<close>

text \<open>
  Modelled from the spec: these classes are declared outside the given sources; each
  record has the fields the manager's constructor calls set. Field names carry a prefix
  where two classes share a name.
\<close>

record SpeakerStyle =
  ss_id :: int
  ss_name :: string
  ss_type :: string

record StyleInfo =
  si_id :: int
  si_icon :: string
  si_portrait :: "string option"
  si_voice_samples :: "string list"
  si_voice_sample_transcripts :: "string list"

record Speaker =
  sp_speaker_uuid :: string
  sp_name :: string
  sp_version :: string
  sp_permitted_synthesis_morphing :: string
  sp_styles :: "SpeakerStyle list"

record SpeakerInfo =
  policy :: string
  portrait :: string
  style_infos :: "StyleInfo list"

record LibrarySpeaker =
  speaker :: Speaker
  speaker_info :: SpeakerInfo

record AivmInfo =
  is_loaded :: bool
  is_update_available :: bool
  latest_version :: string
  file_path :: string
  file_size :: nat
  manifest :: AivmManifest
  info_speakers :: "LibrarySpeaker list"

subsection \<open>The install directory\<close>

text \<open>
  A directory is the list of its entries in the order \<open>glob\<close> lists them; a path is the
  file name inside the install directory. A regular file has a flag saying whether it can
  be opened for reading, and its bytes.
\<close>

type_synonym bytes = "nat list"

datatype node =
    BrokenLink
  | Directory
  | RegularFile bool bytes

type_synonym directory = "(string \<times> node) list"

subsection \<open>The environment\<close>

text \<open>
  What the catalog answers to \<open>GET /aivm-models/{uuid}\<close>: a timeout, another failure of
  the request, or a status code with a body. A body is not JSON (\<open>response.json()\<close>
  raises), or an object whose key \<open>model_files\<close> may be missing; a file descriptor's keys
  \<open>model_type\<close> and \<open>version\<close> may be missing too.
\<close>

record model_file =
  model_type :: "string option"
  mf_version :: "string option"

datatype hub_body =
    NotJson
  | ModelInfo "model_file list option"

datatype hub_response =
    TimeoutException
  | RequestError
  | Response int hub_body

text \<open>
  What writing \<open>data\<close> to a path does: it succeeds, \<open>open\<close> raises \<open>OSError\<close>
  before anything is written, or \<open>write\<close> raises \<open>OSError\<close> after the first \<open>n\<close> bytes
  reached the file.
\<close>

datatype write_outcome =
    WriteOk
  | OpenRaises string
  | WriteRaisesAfter nat string

record 'v env =
  md5_int :: "string \<Rightarrow> int"
  read_aivmx_metadata :: "bytes \<Rightarrow> exn + AivmManifest"
  read_aivm_metadata :: "bytes \<Rightarrow> exn + AivmManifest"
  Version_parse :: "string \<Rightarrow> exn + 'v"
  Version_gt :: "'v \<Rightarrow> 'v \<Rightarrow> bool"
  hub_get :: "string \<Rightarrow> hub_response"
  httpx_get :: "string \<Rightarrow> exn + bytes"
  os_write :: "string \<Rightarrow> bytes \<Rightarrow> write_outcome"

record manager =
  installed_aivm_dir :: directory
  installed_aivm_infos :: "(string \<times> AivmInfo) list option"

subsection \<open>Constants of the class\<close>

definition SUPPORTED_MANIFEST_VERSIONS :: "string list" where
  "SUPPORTED_MANIFEST_VERSIONS = [''1.0'']"

definition SUPPORTED_MODEL_ARCHITECTURES :: "ModelArchitecture list" where
  "SUPPORTED_MODEL_ARCHITECTURES = [StyleBertVITS2, StyleBertVITS2JPExtra]"

definition AIVISHUB_API_BASE_URL :: string where
  "AIVISHUB_API_BASE_URL = ''https://api.aivis-project.com/v1''"

definition DEFAULT_MODEL_UUIDS :: "string list" where
  "DEFAULT_MODEL_UUIDS = [''a59cb814-0083-4369-8542-f51a29e72af7'']"

subsection \<open>The style identifier codec\<close>

definition MAX_UUID_BITS :: nat where
  "MAX_UUID_BITS = 27"

definition UUID_BIT_MASK :: int where
  "UUID_BIT_MASK = push_bit MAX_UUID_BITS 1 - 1"

definition LOCAL_STYLE_ID_BITS :: nat where
  "LOCAL_STYLE_ID_BITS = 5"

definition LOCAL_STYLE_ID_MASK :: int where
  "LOCAL_STYLE_ID_MASK = push_bit LOCAL_STYLE_ID_BITS 1 - 1"

definition SIGN_BIT :: int where
  "SIGN_BIT = push_bit 31 1"

text \<open>
  The first argument is \<open>int(hashlib.md5(s.encode()).hexdigest(), 16)\<close> as a function
  of \<open>s\<close>.
\<close>

definition local_style_id_to_style_id :: "(string \<Rightarrow> int) \<Rightarrow> int \<Rightarrow> string \<Rightarrow> exn + int" where
  "local_style_id_to_style_id md5 local_style_id speaker_uuid' =
     (if speaker_uuid' = [] then Inl (ValueError ''speaker_uuid must be a non-empty string'')
      else if \<not> (0 \<le> local_style_id \<and> local_style_id \<le> 31)
        then Inl (ValueError ''local_style_id must be an integer between 0 and 31'')
      else
        let uuid_hash = md5 speaker_uuid' AND UUID_BIT_MASK;
            local_style_id_masked = local_style_id AND LOCAL_STYLE_ID_MASK;
            combined_id = push_bit LOCAL_STYLE_ID_BITS uuid_hash OR local_style_id_masked
        in Inr (if combined_id AND SIGN_BIT \<noteq> 0 then combined_id AND NOT SIGN_BIT
                else combined_id))"

definition style_id_to_local_style_id :: "int \<Rightarrow> int" where
  "style_id_to_local_style_id style_id = style_id AND 0x1F"

definition extract_base64_from_data_url :: "string \<Rightarrow> exn + string" where
  "extract_base64_from_data_url data_url =
     (if data_url = [] then Inl (ValueError ''Data URL is empty.'')
      else if \<not> startswith data_url ''data:'' then Inl (ValueError ''Invalid data URL format.'')
      else if CHR '','' \<in> set data_url
        then Inr (drop 1 (dropWhile (\<lambda>c. c \<noteq> CHR '','') data_url))
      else Inl (ValueError ''Invalid data URL format.''))"

subsection \<open>Scanning the install directory\<close>

definition endswith :: "string \<Rightarrow> string \<Rightarrow> bool" where
  "endswith s suffix =
     (length suffix \<le> length s \<and> drop (length s - length suffix) s = suffix)"

text \<open>
  \<open>glob.glob(dir / "*.ext")\<close>: the entries whose name ends with the extension and does
  not begin with a dot, in the directory's order.
\<close>

definition glob :: "directory \<Rightarrow> string \<Rightarrow> directory" where
  "glob dir ext = filter (\<lambda>(p, nd). endswith p ext \<and> \<not> startswith p ''.'') dir"

definition aivm_file_paths :: "directory \<Rightarrow> directory" where
  "aivm_file_paths dir = glob dir ''.aivmx'' @ glob dir ''.aivm''"

fun voice_sample_audios :: "AivmManifestVoiceSample list \<Rightarrow> exn + string list" where
  "voice_sample_audios [] = Inr []"
| "voice_sample_audios (sample # samples) =
     (case extract_base64_from_data_url (audio sample) of
        Inl e \<Rightarrow> Inl e
      | Inr a \<Rightarrow>
          (case voice_sample_audios samples of
             Inl e \<Rightarrow> Inl e
           | Inr rest \<Rightarrow> Inr (a # rest)))"

text \<open>The body of the loop over \<open>speaker_manifest.styles\<close>.\<close>

definition make_style ::
  "'v env \<Rightarrow> string \<Rightarrow> string \<Rightarrow> AivmManifestSpeakerStyle \<Rightarrow> exn + SpeakerStyle \<times> StyleInfo" where
  "make_style env speaker_uuid' speaker_icon' style_manifest =
     and_then (local_style_id_to_style_id (md5_int env) (local_id style_manifest) speaker_uuid')
       (\<lambda>style_id.
     and_then
       (case style_icon style_manifest of
          None \<Rightarrow> Inr speaker_icon'
        | Some i \<Rightarrow> if i = [] then Inr speaker_icon' else extract_base64_from_data_url i)
       (\<lambda>icon.
     and_then (voice_sample_audios (voice_samples style_manifest))
       (\<lambda>samples.
     Inr (\<lparr>ss_id = style_id, ss_name = style_name style_manifest, ss_type = ''talk''\<rparr>,
          \<lparr>si_id = style_id, si_icon = icon, si_portrait = None,
           si_voice_samples = samples,
           si_voice_sample_transcripts = map transcript (voice_samples style_manifest)\<rparr>))))"

fun make_styles ::
  "'v env \<Rightarrow> string \<Rightarrow> string \<Rightarrow> AivmManifestSpeakerStyle list
     \<Rightarrow> exn + SpeakerStyle list \<times> StyleInfo list" where
  "make_styles env speaker_uuid' speaker_icon' [] = Inr ([], [])"
| "make_styles env speaker_uuid' speaker_icon' (style_manifest # rest) =
     (case make_style env speaker_uuid' speaker_icon' style_manifest of
        Inl e \<Rightarrow> Inl e
      | Inr (speaker_style, style_info) \<Rightarrow>
          (case make_styles env speaker_uuid' speaker_icon' rest of
             Inl e \<Rightarrow> Inl e
           | Inr (speaker_styles, style_infos') \<Rightarrow>
               Inr (speaker_style # speaker_styles, style_info # style_infos')))"

definition supports_japanese :: "AivmManifestSpeaker \<Rightarrow> bool" where
  "supports_japanese speaker_manifest =
     (let supported_langs = map lower (supported_languages speaker_manifest)
      in list_ex (\<lambda>lang. lang \<in> set supported_langs) [''ja'', ''ja-jp''])"

text \<open>
  The body of the loop over \<open>aivm_manifest.speakers\<close>: \<open>None\<close> when the speaker is
  left out because it does not support Japanese.
\<close>

definition make_speaker ::
  "'v env \<Rightarrow> AivmManifest \<Rightarrow> AivmManifestSpeaker \<Rightarrow> exn + LibrarySpeaker option" where
  "make_speaker env aivm_manifest speaker_manifest =
     (if \<not> supports_japanese speaker_manifest then Inr None
      else
        and_then (extract_base64_from_data_url (speaker_icon speaker_manifest))
          (\<lambda>icon.
        and_then (make_styles env (speaker_uuid speaker_manifest) icon (styles speaker_manifest))
          (\<lambda>(speaker_styles, style_infos').
        Inr (Some
          \<lparr>speaker =
             \<lparr>sp_speaker_uuid = speaker_uuid speaker_manifest,
              sp_name = speaker_name speaker_manifest,
              sp_version = version aivm_manifest,
              sp_permitted_synthesis_morphing = ''NOTHING'',
              sp_styles = speaker_styles\<rparr>,
           speaker_info =
             \<lparr>policy = (case license aivm_manifest of None \<Rightarrow> [] | Some l \<Rightarrow> l),
              portrait = icon,
              style_infos = style_infos'\<rparr>\<rparr>))))"

fun make_speakers ::
  "'v env \<Rightarrow> AivmManifest \<Rightarrow> AivmManifestSpeaker list \<Rightarrow> exn + LibrarySpeaker list" where
  "make_speakers env aivm_manifest [] = Inr []"
| "make_speakers env aivm_manifest (speaker_manifest # rest) =
     (case make_speaker env aivm_manifest speaker_manifest of
        Inl e \<Rightarrow> Inl e
      | Inr made \<Rightarrow>
          (case make_speakers env aivm_manifest rest of
             Inl e \<Rightarrow> Inl e
           | Inr others \<Rightarrow>
               Inr (case made of None \<Rightarrow> others | Some s \<Rightarrow> s # others)))"

definition supported_major :: "exn + int" where
  "supported_major =
     (case SUPPORTED_MANIFEST_VERSIONS of
        [] \<Rightarrow> Inl IndexError
      | v # _ \<Rightarrow>
          (case split (CHR ''.'') v of
             [] \<Rightarrow> Inl IndexError
           | p # _ \<Rightarrow> py_int p))"

text \<open>
  The validation of the manifest version: \<open>Inr False\<close> where the source logs a warning
  and continues with the next file, \<open>Inl\<close> where \<open>int\<close> raises.
\<close>

definition check_manifest_version :: "AivmManifest \<Rightarrow> exn + bool" where
  "check_manifest_version aivm_manifest =
     (let manifest_version_parts = split (CHR ''.'') (manifest_version aivm_manifest)
      in if length manifest_version_parts \<noteq> 2 then Inr False
         else
           and_then (py_int (manifest_version_parts ! 0)) (\<lambda>manifest_major.
           and_then (py_int (manifest_version_parts ! 1)) (\<lambda>_.
           and_then supported_major (\<lambda>major.
             if manifest_major \<noteq> major then Inr False else Inr True))))"

definition read_metadata :: "'v env \<Rightarrow> string \<Rightarrow> bytes \<Rightarrow> exn + AivmManifest" where
  "read_metadata env aivm_file_path content =
     (if endswith aivm_file_path ''.aivmx'' then read_aivmx_metadata env content
      else read_aivm_metadata env content)"

text \<open>
  The body of the loop over \<open>aivm_file_paths\<close>, from the index built so far to the
  index after this file. \<open>open\<close> raises \<open>OSError\<close> on a file that cannot be read; of the
  reader's exceptions only \<open>AivmValidationError\<close> is caught.
\<close>

definition scan_file ::
  "'v env \<Rightarrow> (string \<times> AivmInfo) list \<Rightarrow> string \<times> node \<Rightarrow> exn + (string \<times> AivmInfo) list" where
  "scan_file env aivm_infos entry =
     (case entry of (aivm_file_path, nd) \<Rightarrow>
        (case nd of
           BrokenLink \<Rightarrow> Inr aivm_infos
         | Directory \<Rightarrow> Inr aivm_infos
         | RegularFile readable content \<Rightarrow>
             if \<not> readable then Inl (OSError ''Permission denied'')
             else
               (case read_metadata env aivm_file_path content of
                  Inl e \<Rightarrow> if e = AivmValidationError then Inr aivm_infos else Inl e
                | Inr aivm_manifest \<Rightarrow>
                    if uuid aivm_manifest \<in> fst ` set aivm_infos then Inr aivm_infos
                    else
                      and_then (check_manifest_version aivm_manifest) (\<lambda>ok.
                        if \<not> ok then Inr aivm_infos
                        else if model_architecture aivm_manifest
                                  \<notin> set SUPPORTED_MODEL_ARCHITECTURES
                          then Inr aivm_infos
                        else
                          and_then (make_speakers env aivm_manifest (speakers aivm_manifest))
                            (\<lambda>made.
                               Inr (aivm_infos @
                                 [(uuid aivm_manifest,
                                   \<lparr>is_loaded = False,
                                    is_update_available = False,
                                    latest_version = version aivm_manifest,
                                    file_path = aivm_file_path,
                                    file_size = length content,
                                    manifest = aivm_manifest,
                                    info_speakers = made\<rparr>)]))))))"

fun scan_files ::
  "'v env \<Rightarrow> (string \<times> AivmInfo) list \<Rightarrow> directory \<Rightarrow> exn + (string \<times> AivmInfo) list" where
  "scan_files env aivm_infos [] = Inr aivm_infos"
| "scan_files env aivm_infos (entry # entries) =
     (case scan_file env aivm_infos entry of
        Inl e \<Rightarrow> Inl e
      | Inr aivm_infos' \<Rightarrow> scan_files env aivm_infos' entries)"

subsection \<open>Reconciliation with the catalog\<close>

text \<open>
  \<open>next((file for file in model_files if file["model_type"] == "AIVMX"), None)\<close>: a
  descriptor without the key \<open>model_type\<close> that is reached before a match raises
  \<open>KeyError\<close>.
\<close>

fun find_aivmx :: "model_file list \<Rightarrow> exn + model_file option" where
  "find_aivmx [] = Inr None"
| "find_aivmx (file # files) =
     (case model_type file of
        None \<Rightarrow> Inl KeyError
      | Some t \<Rightarrow> if t = ''AIVMX'' then Inr (Some file) else find_aivmx files)"

text \<open>
  The \<open>try\<close> block of \<open>fetch_latest_version\<close>: the entry as the block leaves it, and
  the exception it raised, if any. The assignments are made in the source's order.
\<close>

definition fetch_latest_version_try :: "'v env \<Rightarrow> AivmInfo \<Rightarrow> AivmInfo \<times> exn option" where
  "fetch_latest_version_try env aivm_info =
     (case hub_get env (AIVISHUB_API_BASE_URL @ ''/aivm-models/'' @ uuid (manifest aivm_info)) of
        TimeoutException \<Rightarrow> (aivm_info, Some HTTPError)
      | RequestError \<Rightarrow> (aivm_info, Some HTTPError)
      | Response status_code body \<Rightarrow>
          if status_code = 404 then (aivm_info, None)
          else if status_code \<noteq> 200 then (aivm_info, None)
          else
            (case body of
               NotJson \<Rightarrow> (aivm_info, Some (ValueError ''Expecting value''))
             | ModelInfo None \<Rightarrow> (aivm_info, Some KeyError)
             | ModelInfo (Some model_files) \<Rightarrow>
                 (case find_aivmx model_files of
                    Inl e \<Rightarrow> (aivm_info, Some e)
                  | Inr None \<Rightarrow> (aivm_info, None)
                  | Inr (Some latest_aivmx_version) \<Rightarrow>
                      (case mf_version latest_aivmx_version of
                         None \<Rightarrow> (aivm_info, Some KeyError)
                       | Some v \<Rightarrow>
                           let aivm_info1 = aivm_info\<lparr>latest_version := v\<rparr>
                           in (case Version_parse env (version (manifest aivm_info1)) of
                                 Inl e \<Rightarrow> (aivm_info1, Some e)
                               | Inr current_version \<Rightarrow>
                                   (case Version_parse env (latest_version aivm_info1) of
                                      Inl e \<Rightarrow> (aivm_info1, Some e)
                                    | Inr latest_version' \<Rightarrow>
                                        (aivm_info1\<lparr>is_update_available :=
                                           Version_gt env latest_version' current_version\<rparr>,
                                         None)))))))"

text \<open>Both \<open>except\<close> clauses only log, so the exception is dropped.\<close>

definition fetch_latest_version :: "'v env \<Rightarrow> AivmInfo \<Rightarrow> AivmInfo" where
  "fetch_latest_version env aivm_info = fst (fetch_latest_version_try env aivm_info)"

text \<open>
  \<open>asyncio.gather\<close> over one task for each entry. Each task writes to its own entry
  only, so the tasks are run one after the other here.
\<close>

definition update_entries :: "'v env \<Rightarrow> (string \<times> AivmInfo) list \<Rightarrow> (string \<times> AivmInfo) list" where
  "update_entries env aivm_infos =
     map (\<lambda>(aivm_uuid, aivm_info). (aivm_uuid, fetch_latest_version env aivm_info)) aivm_infos"

definition check_aivm_updates_from_hub :: "'v env \<Rightarrow> manager \<Rightarrow> manager" where
  "check_aivm_updates_from_hub env self =
     (case installed_aivm_infos self of
        None \<Rightarrow> self
      | Some aivm_infos \<Rightarrow>
          self\<lparr>installed_aivm_infos := Some (update_entries env aivm_infos)\<rparr>)"

subsection \<open>The cache\<close>

definition migrate_load_state ::
  "(string \<times> AivmInfo) list option \<Rightarrow> (string \<times> AivmInfo) list \<Rightarrow> (string \<times> AivmInfo) list" where
  "migrate_load_state previous sorted_aivm_infos =
     (case previous of
        None \<Rightarrow> sorted_aivm_infos
      | Some old \<Rightarrow>
          map (\<lambda>(aivm_uuid, aivm_info).
                 (case map_of old aivm_uuid of
                    None \<Rightarrow> (aivm_uuid, aivm_info)
                  | Some old_info \<Rightarrow> (aivm_uuid, aivm_info\<lparr>is_loaded := is_loaded old_info\<rparr>)))
              sorted_aivm_infos)"

text \<open>
  \<open>get_installed_aivm_infos\<close> returns the index and the manager after the call, or the
  exception that left the loop (the cache is then as it was). With
  \<open>wait_for_update_check\<close> the reconciliation has run when the call returns; without it
  the reconciliation is left to the background thread, which is a later
  \<open>check_aivm_updates_from_hub\<close> on the manager.
\<close>

definition get_installed_aivm_infos ::
  "'v env \<Rightarrow> manager \<Rightarrow> bool \<Rightarrow> bool \<Rightarrow> (exn + (string \<times> AivmInfo) list) \<times> manager" where
  "get_installed_aivm_infos env self force wait_for_update_check =
     (case (if force then None else installed_aivm_infos self) of
        Some cached \<Rightarrow> (Inr cached, self)
      | None \<Rightarrow>
          (case scan_files env [] (aivm_file_paths (installed_aivm_dir self)) of
             Inl e \<Rightarrow> (Inl e, self)
           | Inr aivm_infos \<Rightarrow>
               let sorted_aivm_infos =
                     sort_key (\<lambda>(aivm_uuid, aivm_info). name (manifest aivm_info)) aivm_infos;
                   migrated = migrate_load_state (installed_aivm_infos self) sorted_aivm_infos;
                   published =
                     (if wait_for_update_check then update_entries env migrated else migrated)
               in (Inr published, self\<lparr>installed_aivm_infos := Some published\<rparr>)))"

definition update_model_load_state :: "manager \<Rightarrow> string \<Rightarrow> bool \<Rightarrow> manager" where
  "update_model_load_state self aivm_uuid loaded =
     (case installed_aivm_infos self of
        None \<Rightarrow> self
      | Some aivm_infos \<Rightarrow>
          self\<lparr>installed_aivm_infos :=
            Some (map (\<lambda>(u, aivm_info).
                         if u = aivm_uuid then (u, aivm_info\<lparr>is_loaded := loaded\<rparr>)
                         else (u, aivm_info))
                      aivm_infos)\<rparr>)"

subsection \<open>Looking up a style by speaker name\<close>

definition first_style_id :: "AivmInfo \<Rightarrow> exn + int" where
  "first_style_id aivm_info =
     (case info_speakers aivm_info of
        [] \<Rightarrow> Inl IndexError
      | first_speaker # _ \<Rightarrow>
          (case sp_styles (speaker first_speaker) of
             [] \<Rightarrow> Inl IndexError
           | first_style # _ \<Rightarrow> Inr (ss_id first_style)))"

text \<open>The inner loop: \<open>None\<close> when it ends without returning.\<close>

fun search_speakers :: "AivmInfo \<Rightarrow> string \<Rightarrow> LibrarySpeaker list \<Rightarrow> (exn + int) option" where
  "search_speakers aivm_info model_name [] = None"
| "search_speakers aivm_info model_name (aivm_info_speaker # rest) =
     (if sp_name (speaker aivm_info_speaker) = model_name then Some (first_style_id aivm_info)
      else search_speakers aivm_info model_name rest)"

fun search_infos :: "(string \<times> AivmInfo) list \<Rightarrow> string \<Rightarrow> exn + int" where
  "search_infos [] model_name = Inl (HTTPException 500 ModelNameDoesNotExist)"
| "search_infos ((aivm_uuid, aivm_info) # rest) model_name =
     (case search_speakers aivm_info model_name (info_speakers aivm_info) of
        Some r \<Rightarrow> r
      | None \<Rightarrow> search_infos rest model_name)"

definition get_style_id_from_model_name ::
  "'v env \<Rightarrow> manager \<Rightarrow> string \<Rightarrow> (exn + int) \<times> manager" where
  "get_style_id_from_model_name env self model_name =
     (case get_installed_aivm_infos env self False False of
        (Inl e, self') \<Rightarrow> (Inl e, self')
      | (Inr aivm_infos, self') \<Rightarrow> (search_infos aivm_infos model_name, self'))"

subsection \<open>Installing and uninstalling\<close>

text \<open>
  The two readers in the order \<open>install_aivm\<close> tries them, with the extension of the
  one that succeeded; \<open>AivmValidationError\<close> from both is the 422 of the source.
\<close>

definition read_package :: "'v env \<Rightarrow> bytes \<Rightarrow> exn + AivmManifest \<times> string" where
  "read_package env file =
     (case read_aivmx_metadata env file of
        Inr aivm_manifest \<Rightarrow> Inr (aivm_manifest, ''aivmx'')
      | Inl e \<Rightarrow>
          if e \<noteq> AivmValidationError then Inl e
          else
            (case read_aivm_metadata env file of
               Inr aivm_manifest \<Rightarrow> Inr (aivm_manifest, ''aivm'')
             | Inl e' \<Rightarrow>
                 if e' \<noteq> AivmValidationError then Inl e'
                 else Inl (HTTPException 422 InvalidAivmxFile)))"

definition classify_write_error :: "string \<Rightarrow> http_detail" where
  "classify_write_error msg =
     (let error_message = lower msg
      in if contains error_message ''no space'' then WriteFailedNoSpace
         else if contains error_message ''permission denied'' then WriteFailedPermissionDenied
         else if contains error_message ''read-only'' then WriteFailedReadOnly
         else WriteFailed)"

text \<open>The directory with \<open>content\<close> as the bytes of the file at \<open>path\<close>.\<close>

definition put_file :: "directory \<Rightarrow> string \<Rightarrow> bytes \<Rightarrow> directory" where
  "put_file dir path content =
     (if path \<in> fst ` set dir
      then map (\<lambda>(p, nd).
                  if p = path
                  then (p, case nd of RegularFile r _ \<Rightarrow> RegularFile r content
                                    | _ \<Rightarrow> RegularFile True content)
                  else (p, nd)) dir
      else dir @ [(path, RegularFile True content)])"

text \<open>
  \<open>with open(path, mode="wb") as f: f.write(data)\<close>. The file that is opened is the
  target itself: once \<open>open\<close> has succeeded the target holds what has been written so
  far, also when \<open>write\<close> raises.
\<close>

definition open_wb_write ::
  "'v env \<Rightarrow> directory \<Rightarrow> string \<Rightarrow> bytes \<Rightarrow> (exn + unit) \<times> directory" where
  "open_wb_write env dir path data =
     (if map_of dir path = Some Directory then (Inl (OSError ''Is a directory''), dir)
      else
        (case os_write env path data of
           OpenRaises msg \<Rightarrow> (Inl (OSError msg), dir)
         | WriteRaisesAfter n msg \<Rightarrow> (Inl (OSError msg), put_file dir path (take n data))
         | WriteOk \<Rightarrow> (Inr (), put_file dir path data)))"

definition install_aivm :: "'v env \<Rightarrow> manager \<Rightarrow> bytes \<Rightarrow> (exn + unit) \<times> manager" where
  "install_aivm env self file =
     (case read_package env file of
        Inl e \<Rightarrow> (Inl e, self)
      | Inr (aivm_manifest, extension) \<Rightarrow>
          (case get_installed_aivm_infos env self False False of
             (Inl e, self1) \<Rightarrow> (Inl e, self1)
           | (Inr aivm_infos, self1) \<Rightarrow>
               let aivm_file_path =
                     (case map_of aivm_infos (uuid aivm_manifest) of
                        None \<Rightarrow> uuid aivm_manifest @ ''.'' @ extension
                      | Some previous_aivm_info \<Rightarrow> file_path previous_aivm_info)
               in if manifest_version aivm_manifest \<notin> set SUPPORTED_MANIFEST_VERSIONS
                    then (Inl (HTTPException 422 ManifestVersionNotSupported), self1)
                  else if model_architecture aivm_manifest \<notin> set SUPPORTED_MODEL_ARCHITECTURES
                    then (Inl (HTTPException 422 ModelArchitectureNotSupported), self1)
                  else
                    (case open_wb_write env (installed_aivm_dir self1) aivm_file_path file of
                       (Inl e, dir') \<Rightarrow>
                         (Inl (case e of
                                 OSError msg \<Rightarrow> HTTPException 500 (classify_write_error msg)
                               | _ \<Rightarrow> e),
                          self1\<lparr>installed_aivm_dir := dir'\<rparr>)
                     | (Inr _, dir') \<Rightarrow>
                         (case get_installed_aivm_infos env
                                 (self1\<lparr>installed_aivm_dir := dir'\<rparr>) True True of
                            (Inl e, self2) \<Rightarrow> (Inl e, self2)
                          | (Inr _, self2) \<Rightarrow> (Inr (), self2)))))"

definition is_hex_lower :: "char \<Rightarrow> bool" where
  "is_hex_lower c = (is_digit c \<or> CHR ''a'' \<le> c \<and> c \<le> CHR ''f'')"

text \<open>
  The regular expression of \<open>install_aivm_from_url\<close>, matched at the start of a
  string: 8-4-4-4-12 lower-case hexadecimal digits.
\<close>

definition match_uuid :: "string \<Rightarrow> string option" where
  "match_uuid s =
     (let candidate = take 36 s
      in if length candidate = 36 \<and>
            list_all (\<lambda>(i, c). if i \<in> set [8, 13, 18, 23] then c = CHR ''-''
                               else is_hex_lower c)
                     (zip [0..<36] candidate)
         then Some candidate else None)"

fun search_uuid :: "string \<Rightarrow> string option" where
  "search_uuid [] = None"
| "search_uuid (c # cs) =
     (if startswith (c # cs) ''/aivm-models/''
      then (case match_uuid (drop 13 (c # cs)) of
              Some u \<Rightarrow> Some u
            | None \<Rightarrow> search_uuid cs)
      else search_uuid cs)"

definition download_url :: "string \<Rightarrow> string" where
  "download_url aivm_uuid =
     AIVISHUB_API_BASE_URL @ ''/aivm-models/'' @ aivm_uuid @ ''/download?model_type=AIVMX''"

definition resolve_url :: "string \<Rightarrow> exn + string" where
  "resolve_url url =
     (if startswith url ''https://hub.aivis-project.com/aivm-models/''
      then (case search_uuid (lower url) of
              None \<Rightarrow> Inl (HTTPException 422 InvalidAivisHubUrl)
            | Some aivm_uuid \<Rightarrow> Inr (download_url aivm_uuid))
      else Inr url)"

text \<open>
  \<open>httpx_get env url\<close> is \<open>httpx.get(url, follow_redirects=True)\<close> followed by
  \<open>raise_for_status\<close>: the content, or the exception; only \<open>httpx.HTTPError\<close> is
  caught and turned into the 500 of the source.
\<close>

definition install_aivm_from_url :: "'v env \<Rightarrow> manager \<Rightarrow> string \<Rightarrow> (exn + unit) \<times> manager" where
  "install_aivm_from_url env self url =
     (case resolve_url url of
        Inl e \<Rightarrow> (Inl e, self)
      | Inr url' \<Rightarrow>
          (case httpx_get env url' of
             Inl e \<Rightarrow>
               if e = HTTPError then (Inl (HTTPException 500 DownloadFailed), self)
               else (Inl e, self)
           | Inr content \<Rightarrow> install_aivm env self content))"

text \<open>
  \<open>Path.unlink(missing_ok=True)\<close>: a missing file is not an error, a directory is.
\<close>

definition unlink :: "directory \<Rightarrow> string \<Rightarrow> exn + directory" where
  "unlink dir path =
     (if map_of dir path = Some Directory then Inl (OSError ''Is a directory'')
      else Inr (filter (\<lambda>(p, nd). p \<noteq> path) dir))"

definition uninstall_aivm :: "'v env \<Rightarrow> manager \<Rightarrow> string \<Rightarrow> (exn + unit) \<times> manager" where
  "uninstall_aivm env self aivm_uuid =
     (case get_installed_aivm_infos env self False False of
        (Inl e, self1) \<Rightarrow> (Inl e, self1)
      | (Inr installed, self1) \<Rightarrow>
          (case map_of installed aivm_uuid of
             None \<Rightarrow> (Inl (HTTPException 404 ModelNotInstalled), self1)
           | Some aivm_info \<Rightarrow>
               if length installed \<le> 1
                 then (Inl (HTTPException 400 MustHaveOneModel), self1)
               else
                 (case unlink (installed_aivm_dir self1) (file_path aivm_info) of
                    Inl e \<Rightarrow> (Inl e, self1)
                  | Inr dir' \<Rightarrow>
                      (case get_installed_aivm_infos env
                              (self1\<lparr>installed_aivm_dir := dir'\<rparr>) True True of
                         (Inl e, self2) \<Rightarrow> (Inl e, self2)
                       | (Inr _, self2) \<Rightarrow> (Inr (), self2)))))"

subsection \<open>The constructor\<close>

text \<open>The loop over \<open>DEFAULT_MODEL_UUIDS\<close>; nothing in it catches an exception.\<close>

fun install_default_models :: "'v env \<Rightarrow> manager \<Rightarrow> string list \<Rightarrow> (exn + unit) \<times> manager" where
  "install_default_models env self [] = (Inr (), self)"
| "install_default_models env self (aivm_uuid # rest) =
     (case install_aivm_from_url env self (download_url aivm_uuid) of
        (Inl e, self') \<Rightarrow> (Inl e, self')
      | (Inr _, self') \<Rightarrow> install_default_models env self' rest)"

text \<open>
  \<open>AivmManager.__init__\<close> on an install directory with the given entries (none when
  \<open>mkdir\<close> has just created it). \<open>Inl\<close> is an exception that leaves the constructor:
  no manager object exists then, and the second component is the state of the disk.
\<close>

definition AivmManager_init :: "'v env \<Rightarrow> directory \<Rightarrow> (exn + unit) \<times> manager" where
  "AivmManager_init env dir =
     (let self = \<lparr>installed_aivm_dir = dir, installed_aivm_infos = None\<rparr>
      in case get_installed_aivm_infos env self False False of
           (Inl e, self') \<Rightarrow> (Inl e, self')
         | (Inr current_installed_aivm_infos, self') \<Rightarrow>
             if length current_installed_aivm_infos = 0
               then install_default_models env self' DEFAULT_MODEL_UUIDS
             else (Inr (), self'))"

subsection \<open>The identities a directory holds\<close>

text \<open>
  The identities of the manifests that the readers find in a list of directory entries,
  in the entries' order: what a scan can discover.
\<close>

definition entry_identities :: "'v env \<Rightarrow> directory \<Rightarrow> string list" where
  "entry_identities env entries =
     concat (map (\<lambda>(p, nd).
                    case nd of
                      RegularFile r content \<Rightarrow>
                        (case read_metadata env p content of
                           Inl e \<Rightarrow> []
                         | Inr aivm_manifest \<Rightarrow> [uuid aivm_manifest])
                    | _ \<Rightarrow> [])
                 entries)"

subsection \<open>An environment and packages for the examples\<close>

text \<open>
  A small environment on which the operations are run in the examples below: a reader
  that knows six packages by their bytes, a parser for versions of the form
  \<open>MAJOR.MINOR.PATCH\<close> ordered as number triples, a catalog that lists two models,
  downloads that fail, and writes that succeed.
\<close>

definition ex_style :: AivmManifestSpeakerStyle where
  "ex_style = \<lparr>style_name = ''Normal'', style_icon = None, local_id = 0, voice_samples = []\<rparr>"

definition ex_manifest ::
  "string \<Rightarrow> string \<Rightarrow> string \<Rightarrow> AivmManifestSpeakerStyle list \<Rightarrow> AivmManifest" where
  "ex_manifest u nm icon sts =
     \<lparr>manifest_version = ''1.0'', name = nm, version = ''1.0.0'', license = None,
      model_architecture = StyleBertVITS2JPExtra, uuid = u,
      speakers =
        [\<lparr>speaker_name = nm, speaker_icon = icon, supported_languages = [''ja''],
          speaker_uuid = ''speaker-of-'' @ u, styles = sts\<rparr>]\<rparr>"

definition ex_read :: "bytes \<Rightarrow> exn + AivmManifest" where
  "ex_read content =
     (if content = [1]
        then Inr (ex_manifest ''m1'' ''Zoe'' ''data:image/png;base64,AAAA'' [ex_style])
      else if content = [1, 1]
        then Inr (ex_manifest ''m1'' ''Zoe2'' ''data:image/png;base64,CCCC'' [ex_style])
      else if content = [2]
        then Inr (ex_manifest ''m2'' ''Amy'' ''data:image/png;base64,BBBB'' [ex_style])
      else if content = [3]
        then Inr (ex_manifest ''m3'' ''Bad'' ''icon.png'' [ex_style])
      else if content = [4, 4, 4, 4]
        then Inr (ex_manifest ''m4'' ''Kei'' ''data:image/png;base64,DDDD'' [ex_style])
      else if content = [5]
        then Inr (ex_manifest ''m5'' ''Solo'' ''data:image/png;base64,EEEE'' [])
      else Inl AivmValidationError)"

definition ex_Version_parse :: "string \<Rightarrow> exn + nat list" where
  "ex_Version_parse s =
     (let parts = split (CHR ''.'') s
      in if length parts = 3 \<and> list_all (\<lambda>p. p \<noteq> [] \<and> list_all is_digit p) parts
         then Inr (map (\<lambda>p. foldl (\<lambda>n c. 10 * n + nat (digit_value c)) 0 p) parts)
         else Inl (ValueError ''not a valid version''))"

definition ex_hub_get :: "string \<Rightarrow> hub_response" where
  "ex_hub_get url =
     (if url = AIVISHUB_API_BASE_URL @ ''/aivm-models/m1''
        then Response 200 (ModelInfo (Some
               [\<lparr>model_type = Some ''AIVM'', mf_version = Some ''1.1.0''\<rparr>,
                \<lparr>model_type = Some ''AIVMX'', mf_version = Some ''1.2.0''\<rparr>]))
      else if url = AIVISHUB_API_BASE_URL @ ''/aivm-models/m2''
        then Response 200 (ModelInfo (Some
               [\<lparr>model_type = Some ''AIVMX'', mf_version = Some ''latest''\<rparr>]))
      else TimeoutException)"

definition ex_env :: "nat list env" where
  "ex_env =
     \<lparr>md5_int = (\<lambda>s. foldl (\<lambda>h c. h * 257 + int (of_char c)) 7 s),
      read_aivmx_metadata = ex_read,
      read_aivm_metadata = ex_read,
      Version_parse = ex_Version_parse,
      Version_gt = (\<lambda>a b. b < a),
      hub_get = ex_hub_get,
      httpx_get = (\<lambda>url. Inl HTTPError),
      os_write = (\<lambda>path data. WriteOk)\<rparr>"

definition ex_env_disk_full :: "nat list env" where
  "ex_env_disk_full =
     ex_env\<lparr>os_write := (\<lambda>path data. WriteRaisesAfter 2 ''[Errno 28] No space left on device'')\<rparr>"

definition ex_dir :: directory where
  "ex_dir =
     [(''zoe.aivmx'', RegularFile True [1]),
      (''copy.aivmx'', RegularFile True [1, 1]),
      (''amy.aivmx'', RegularFile True [2]),
      (''junk.aivmx'', RegularFile True [9]),
      (''notes.txt'', RegularFile True [7])]"

definition ex_manager :: manager where
  "ex_manager = \<lparr>installed_aivm_dir = ex_dir, installed_aivm_infos = None\<rparr>"

definition ex_manager_reloaded :: manager where
  "ex_manager_reloaded =
     (update_model_load_state
        (snd (get_installed_aivm_infos ex_env
           \<lparr>installed_aivm_dir =
              [(''zoe.aivmx'', RegularFile True [1]), (''amy.aivmx'', RegularFile True [2])],
            installed_aivm_infos = None\<rparr> False False))
        ''m2'' True)
     \<lparr>installed_aivm_dir :=
        [(''amy.aivmx'', RegularFile True [2]), (''kei.aivmx'', RegularFile True [4, 4, 4, 4])]\<rparr>"

definition ex_manager_single :: manager where
  "ex_manager_single =
     snd (get_installed_aivm_infos ex_env
       \<lparr>installed_aivm_dir = [(''zoe.aivmx'', RegularFile True [1])],
        installed_aivm_infos = None\<rparr> False False)"

definition ex_manager_solo :: manager where
  "ex_manager_solo =
     snd (get_installed_aivm_infos ex_env
       \<lparr>installed_aivm_dir = [(''solo.aivmx'', RegularFile True [5])],
        installed_aivm_infos = None\<rparr> False False)"

definition ex_entry :: "string \<Rightarrow> string \<Rightarrow> AivmInfo" where
  "ex_entry u nm =
     \<lparr>is_loaded = False, is_update_available = False, latest_version = ''1.0.0'',
      file_path = u @ ''.aivmx'', file_size = 1,
      manifest = ex_manifest u nm ''data:image/png;base64,AAAA'' [ex_style],
      info_speakers = []\<rparr>"

text \<open>The display names of the speakers in the cache, in the cache's order.\<close>

definition cached_speaker_names :: "manager \<Rightarrow> string list" where
  "cached_speaker_names self =
     (case installed_aivm_infos self of
        None \<Rightarrow> []
      | Some aivm_infos \<Rightarrow>
          concat (map (\<lambda>(aivm_uuid, aivm_info).
                         map (\<lambda>s. sp_name (speaker s)) (info_speakers aivm_info))
                      aivm_infos))"

section \<open>Properties of the codec\<close>

lemma and_UUID_BIT_MASK: "x AND UUID_BIT_MASK = take_bit 27 x"
  by (simp only: UUID_BIT_MASK_def MAX_UUID_BITS_def push_bit_of_1 take_bit_eq_mask
      mask_eq_exp_minus_1)

lemma and_LOCAL_STYLE_ID_MASK: "x AND LOCAL_STYLE_ID_MASK = take_bit 5 x"
  by (simp only: LOCAL_STYLE_ID_MASK_def LOCAL_STYLE_ID_BITS_def push_bit_of_1
      take_bit_eq_mask mask_eq_exp_minus_1)

lemma clear_sign_bit:
  "(if x AND SIGN_BIT \<noteq> 0 then x AND NOT SIGN_BIT else x) = unset_bit 31 (x::int)"
proof (cases "bit x 31")
  case True
  then have "x AND SIGN_BIT \<noteq> 0"
    unfolding SIGN_BIT_def bit_iff_and_push_bit_not_eq_0 .
  then show ?thesis
    by (simp only: if_True SIGN_BIT_def unset_bit_def simp_thms)
next
  case False
  have "unset_bit 31 x = x"
    using False by (intro bit_eqI) (auto simp only: bit_unset_bit_iff)
  moreover from False have "\<not> x AND SIGN_BIT \<noteq> 0"
    unfolding SIGN_BIT_def bit_iff_and_push_bit_not_eq_0 .
  ultimately show ?thesis
    by (simp only: if_False simp_thms)
qed

lemma five_bits: "0 \<le> l \<Longrightarrow> l \<le> 31 \<Longrightarrow> take_bit 5 (l::int) = l"
  by (simp add: take_bit_int_eq_self)

lemma combined_bits:
  "unset_bit 31 (push_bit 5 (take_bit 27 h) OR take_bit 5 l) =
   take_bit 31 (push_bit 5 h OR take_bit 5 (l::int))"
  by (rule bit_eqI)
    (auto simp add: bit_unset_bit_iff bit_or_iff bit_push_bit_iff bit_take_bit_iff)

lemma encode_value:
  assumes "u \<noteq> []" "0 \<le> l" "l \<le> 31"
  shows "local_style_id_to_style_id md5 l u = Inr (take_bit 31 (push_bit 5 (md5 u) OR l))"
proof -
  have l5: "take_bit 5 l = l"
    using assms(2,3) by (rule five_bits)
  have "local_style_id_to_style_id md5 l u =
     Inr (unset_bit 31 (push_bit 5 (take_bit 27 (md5 u)) OR take_bit 5 l))"
    using assms
    by (simp only: local_style_id_to_style_id_def Let_def clear_sign_bit and_UUID_BIT_MASK
        and_LOCAL_STYLE_ID_MASK LOCAL_STYLE_ID_BITS_def if_False simp_thms)
  also have "\<dots> = Inr (take_bit 31 (push_bit 5 (md5 u) OR take_bit 5 l))"
    by (simp only: combined_bits)
  finally show ?thesis
    by (simp only: l5)
qed

lemma decode_value:
  assumes "0 \<le> l" "l \<le> 31"
  shows "style_id_to_local_style_id (take_bit 31 (push_bit 5 h OR l)) = l"
proof -
  have "(0x1F::int) = mask 5"
    by (simp add: mask_eq_exp_minus_1)
  then have "style_id_to_local_style_id (take_bit 31 (push_bit 5 h OR l)) =
      take_bit 5 (take_bit 31 (push_bit 5 h OR l))"
    by (simp only: style_id_to_local_style_id_def take_bit_eq_mask)
  also have "\<dots> = take_bit 5 l"
    by (rule bit_eqI) (auto simp add: bit_or_iff bit_push_bit_iff bit_take_bit_iff)
  finally show ?thesis
    using assms by (simp only: five_bits)
qed

text \<open>
  C1. For a non-empty identity and a local index in [0,31] the encoder returns an
  identifier, and decoding that identifier gives the local index back.
\<close>

theorem style_id_roundtrip:
  assumes "u \<noteq> []" and "0 \<le> l" and "l \<le> 31"
  shows "\<exists>sid. local_style_id_to_style_id md5 l u = Inr sid
           \<and> style_id_to_local_style_id sid = l"
proof (intro exI conjI)
  show "local_style_id_to_style_id md5 l u = Inr (take_bit 31 (push_bit 5 (md5 u) OR l))"
    using assms by (rule encode_value)
  show "style_id_to_local_style_id (take_bit 31 (push_bit 5 (md5 u) OR l)) = l"
    using assms(2,3) by (rule decode_value)
qed

theorem style_id_roundtrip_witness:
  "''a59cb814'' \<noteq> [] \<and> (0::int) \<le> 7 \<and> (7::int) \<le> 31 \<and>
   (\<exists>sid. local_style_id_to_style_id (\<lambda>s. 0xD41D8CD98F00B204E9800998ECF8427E) 7 ''a59cb814''
             = Inr sid \<and> style_id_to_local_style_id sid = 7)"
  using style_id_roundtrip [of "''a59cb814''" 7 "\<lambda>s. 0xD41D8CD98F00B204E9800998ECF8427E"]
  by simp

text \<open>
  C2. For a non-empty identity and a local index in [0,31] the encoder returns an
  identifier with bit 31 clear: it lies in [0, 2^31), so it is non-negative as a signed
  32-bit integer.
\<close>

theorem style_id_sign_bit_clear:
  assumes "u \<noteq> []" and "0 \<le> l" and "l \<le> 31"
  shows "\<exists>sid. local_style_id_to_style_id md5 l u = Inr sid
           \<and> 0 \<le> sid \<and> sid < 2 ^ 31 \<and> \<not> bit sid 31"
proof -
  let ?sid = "take_bit 31 (push_bit 5 (md5 u) OR l)"
  have "local_style_id_to_style_id md5 l u = Inr ?sid"
    using assms by (rule encode_value)
  moreover have "0 \<le> ?sid"
    by (rule take_bit_nonnegative)
  moreover have "?sid < 2 ^ 31"
    by (rule take_bit_int_less_exp)
  moreover have "\<not> bit ?sid 31"
    by (simp only: bit_take_bit_iff) simp
  ultimately show ?thesis
    by blast
qed

theorem style_id_sign_bit_clear_witness:
  "''a59cb814'' \<noteq> [] \<and> (0::int) \<le> 31 \<and> (31::int) \<le> 31 \<and>
   (\<exists>sid. local_style_id_to_style_id (\<lambda>s. 0xFFFFFFFFFFFFFFFFFFFFFFFFFFFFFFFF) 31 ''a59cb814''
             = Inr sid \<and> 0 \<le> sid \<and> sid < 2 ^ 31 \<and> \<not> bit sid 31)"
  using style_id_sign_bit_clear [of "''a59cb814''" 31 "\<lambda>s. 0xFFFFFFFFFFFFFFFFFFFFFFFFFFFFFFFF"]
  by simp

section \<open>Properties of the scan\<close>

lemma scan_file_cases:
  assumes "scan_file env acc entry = Inr acc'"
  shows "acc' = acc \<or>
         (\<exists>path r content mf made. entry = (path, RegularFile r content)
            \<and> read_metadata env path content = Inr mf
            \<and> uuid mf \<notin> fst ` set acc
            \<and> acc' = acc @ [(uuid mf,
                 \<lparr>is_loaded = False, is_update_available = False,
                  latest_version = version mf, file_path = path,
                  file_size = length content, manifest = mf, info_speakers = made\<rparr>)])"
  using assms
  by (auto simp add: scan_file_def and_then_def
      split: prod.splits node.splits sum.splits if_splits)

lemma scan_file_duplicate:
  assumes "read_metadata env path content = Inr mf" and "uuid mf \<in> fst ` set acc"
  shows "scan_file env acc (path, RegularFile True content) = Inr acc"
  using assms by (simp add: scan_file_def)

lemma scan_files_distinct:
  assumes "scan_files env acc entries = Inr acc'" and "distinct (map fst acc)"
  shows "distinct (map fst acc')"
  using assms
proof (induction entries arbitrary: acc)
  case Nil
  then show ?case by simp
next
  case (Cons entry entries)
  from Cons.prems(1) obtain mid where
    mid: "scan_file env acc entry = Inr mid" and rest: "scan_files env mid entries = Inr acc'"
    by (auto split: sum.splits)
  from scan_file_cases [OF mid] Cons.prems(2) have "distinct (map fst mid)"
    by auto
  with rest show ?case
    by (rule Cons.IH)
qed

lemma scan_files_not_loaded:
  assumes "scan_files env acc entries = Inr acc'" and "\<forall>(u, i) \<in> set acc. \<not> is_loaded i"
  shows "\<forall>(u, i) \<in> set acc'. \<not> is_loaded i"
  using assms
proof (induction entries arbitrary: acc)
  case Nil
  then show ?case by simp
next
  case (Cons entry entries)
  from Cons.prems(1) obtain mid where
    mid: "scan_file env acc entry = Inr mid" and rest: "scan_files env mid entries = Inr acc'"
    by (auto split: sum.splits)
  from scan_file_cases [OF mid] Cons.prems(2) have "\<forall>(u, i) \<in> set mid. \<not> is_loaded i"
    by auto
  with rest show ?case
    by (rule Cons.IH)
qed

lemma scan_files_on_disk:
  assumes "scan_files env acc entries = Inr acc'"
  shows "fst ` set acc' \<subseteq> fst ` set acc \<union> set (entry_identities env entries)"
  using assms
proof (induction entries arbitrary: acc)
  case Nil
  then show ?case by simp
next
  case (Cons entry entries)
  from Cons.prems(1) obtain mid where
    mid: "scan_file env acc entry = Inr mid" and rest: "scan_files env mid entries = Inr acc'"
    by (auto split: sum.splits)
  from scan_file_cases [OF mid]
  have "fst ` set mid \<subseteq> fst ` set acc \<union> set (entry_identities env [entry])"
    by (auto simp add: entry_identities_def)
  moreover have "fst ` set acc' \<subseteq> fst ` set mid \<union> set (entry_identities env entries)"
    using rest by (rule Cons.IH)
  moreover have "set (entry_identities env (entry # entries))
      = set (entry_identities env [entry]) \<union> set (entry_identities env entries)"
    by (simp add: entry_identities_def)
  ultimately show ?case
    by blast
qed

lemma distinct_keys_sort_key:
  "distinct (map fst (sort_key k xs)) = distinct (map fst xs)"
  by (simp add: distinct_map)

lemma keys_migrate_load_state: "map fst (migrate_load_state previous xs) = map fst xs"
  by (cases previous) (auto simp add: migrate_load_state_def split: option.splits)

lemma keys_update_entries: "map fst (update_entries env xs) = map fst xs"
  by (auto simp add: update_entries_def)

lemma scanned_index:
  assumes "force \<or> installed_aivm_infos self = None"
    and "get_installed_aivm_infos env self force wait = (Inr aivm_infos, self')"
  shows "\<exists>scanned.
    scan_files env [] (aivm_file_paths (installed_aivm_dir self)) = Inr scanned
    \<and> aivm_infos =
      (if wait then update_entries env else (\<lambda>xs. xs))
        (migrate_load_state (installed_aivm_infos self)
          (sort_key (\<lambda>(aivm_uuid, aivm_info). name (manifest aivm_info)) scanned))
    \<and> self' = self\<lparr>installed_aivm_infos := Some aivm_infos\<rparr>"
  using assms
  by (auto simp add: get_installed_aivm_infos_def Let_def split: sum.splits if_splits)

text \<open>
  C4. A scan (a forced one, or the first one, when there is no cache yet) that returns
  publishes an index whose identities are pairwise different; and in the loop, a file
  whose manifest carries an identity that the index being built already holds leaves that
  index as it is, so the entry of the file met first stays.
\<close>

theorem scan_identities_unique:
  "(\<forall>aivm_infos self'.
      (force \<or> installed_aivm_infos self = None) \<and>
      get_installed_aivm_infos env self force wait = (Inr aivm_infos, self')
      \<longrightarrow> distinct (map fst aivm_infos) \<and> installed_aivm_infos self' = Some aivm_infos)
   \<and> (\<forall>index path content aivm_manifest.
         read_metadata env path content = Inr aivm_manifest \<and>
         uuid aivm_manifest \<in> fst ` set index
         \<longrightarrow> scan_file env index (path, RegularFile True content) = Inr index)"
proof (intro conjI allI impI)
  fix aivm_infos self'
  assume a: "(force \<or> installed_aivm_infos self = None) \<and>
      get_installed_aivm_infos env self force wait = (Inr aivm_infos, self')"
  then have "force \<or> installed_aivm_infos self = None"
    and "get_installed_aivm_infos env self force wait = (Inr aivm_infos, self')"
    by simp_all
  from scanned_index [OF this] obtain scanned where
    scanned: "scan_files env [] (aivm_file_paths (installed_aivm_dir self)) = Inr scanned"
    and infos: "aivm_infos =
      (if wait then update_entries env else (\<lambda>xs. xs))
        (migrate_load_state (installed_aivm_infos self)
          (sort_key (\<lambda>(aivm_uuid, aivm_info). name (manifest aivm_info)) scanned))"
    and self': "self' = self\<lparr>installed_aivm_infos := Some aivm_infos\<rparr>"
    by blast
  have "distinct (map fst scanned)"
    using scanned by (rule scan_files_distinct) simp
  then show "distinct (map fst aivm_infos)"
    unfolding infos
    by (simp add: keys_update_entries keys_migrate_load_state distinct_keys_sort_key)
  show "installed_aivm_infos self' = Some aivm_infos"
    using self' by simp
next
  fix index :: "(string \<times> AivmInfo) list" and path content aivm_manifest
  assume "read_metadata env path content = Inr aivm_manifest \<and>
         uuid aivm_manifest \<in> fst ` set index"
  then show "scan_file env index (path, RegularFile True content) = Inr index"
    by (simp add: scan_file_duplicate)
qed

lemma ex_scan:
  "(case get_installed_aivm_infos ex_env ex_manager False False of
      (Inl e, self') \<Rightarrow> False
    | (Inr aivm_infos, self') \<Rightarrow> map fst aivm_infos = [''m2'', ''m1''])"
  by code_simp

lemma ex_read_copy:
  "read_metadata ex_env ''copy.aivmx'' [1, 1]
     = Inr (ex_manifest ''m1'' ''Zoe2'' ''data:image/png;base64,CCCC'' [ex_style])"
  by code_simp

theorem scan_identities_unique_witness:
  "\<exists>aivm_infos self'.
      (False \<or> installed_aivm_infos ex_manager = None)
    \<and> get_installed_aivm_infos ex_env ex_manager False False = (Inr aivm_infos, self')
    \<and> map fst aivm_infos = [''m2'', ''m1'']
    \<and> distinct (map fst aivm_infos)
    \<and> installed_aivm_infos self' = Some aivm_infos
    \<and> read_metadata ex_env ''copy.aivmx'' [1, 1]
         = Inr (ex_manifest ''m1'' ''Zoe2'' ''data:image/png;base64,CCCC'' [ex_style])
    \<and> uuid (ex_manifest ''m1'' ''Zoe2'' ''data:image/png;base64,CCCC'' [ex_style])
         \<in> fst ` set aivm_infos
    \<and> scan_file ex_env aivm_infos (''copy.aivmx'', RegularFile True [1, 1]) = Inr aivm_infos"
proof -
  from ex_scan obtain aivm_infos self' where
    r: "get_installed_aivm_infos ex_env ex_manager False False = (Inr aivm_infos, self')"
    and k: "map fst aivm_infos = [''m2'', ''m1'']"
    by (auto split: prod.splits sum.splits)
  have n: "installed_aivm_infos ex_manager = None"
    by (simp add: ex_manager_def)
  have u: "uuid (ex_manifest ''m1'' ''Zoe2'' ''data:image/png;base64,CCCC'' [ex_style])
      \<in> fst ` set aivm_infos"
    using k by (simp add: ex_manifest_def flip: set_map)
  note t = scan_identities_unique [of False ex_manager ex_env False]
  from t n r have "distinct (map fst aivm_infos) \<and> installed_aivm_infos self' = Some aivm_infos"
    by blast
  moreover from t ex_read_copy u
  have "scan_file ex_env aivm_infos (''copy.aivmx'', RegularFile True [1, 1]) = Inr aivm_infos"
    by blast
  ultimately show ?thesis
    using r k n u ex_read_copy
    apply (elim conjE)
    apply (rule exI [of _ aivm_infos], rule exI [of _ self'])
    apply (intro conjI disjI2)
    apply assumption+
    done
qed


section \<open>Load state across rescans\<close>

lemma is_loaded_fetch_latest_version:
  "is_loaded (fetch_latest_version env aivm_info) = is_loaded aivm_info"
  by (simp add: fetch_latest_version_def fetch_latest_version_try_def Let_def
      split: hub_response.splits hub_body.splits option.splits sum.splits)

lemma map_of_update_entries:
  "map_of (update_entries env xs) u = map_option (fetch_latest_version env) (map_of xs u)"
  by (induction xs) (auto simp add: update_entries_def)

lemma map_of_migrate_load_state:
  "map_of (migrate_load_state previous xs) u =
     map_option
       (\<lambda>aivm_info.
          case previous of
            None \<Rightarrow> aivm_info
          | Some old \<Rightarrow>
              (case map_of old u of
                 None \<Rightarrow> aivm_info
               | Some old_info \<Rightarrow> aivm_info\<lparr>is_loaded := is_loaded old_info\<rparr>))
       (map_of xs u)"
  by (induction xs) (auto simp add: migrate_load_state_def split: option.splits)

lemma map_of_sort_key:
  assumes "distinct (map fst xs)"
  shows "map_of (sort_key k xs) = map_of xs"
proof -
  have "distinct (map fst (sort_key k xs))"
    using assms by (simp add: distinct_keys_sort_key)
  then show ?thesis
    using assms by (simp add: map_of_inject_set)
qed

text \<open>
  C5. After a forced rescan that returns, the new index is the cache, and for every entry
  of it: if the previous cache held the identity, the entry has that entry's
  \<open>is_loaded\<close>; if there was no previous cache or it did not hold the identity,
  \<open>is_loaded\<close> is false. An identity that no package file of the directory carries is
  not in the new index.
\<close>

theorem forced_rescan_load_state:
  assumes "get_installed_aivm_infos env self True wait = (Inr aivm_infos, self')"
  shows "installed_aivm_infos self' = Some aivm_infos \<and>
    (\<forall>aivm_uuid aivm_info. map_of aivm_infos aivm_uuid = Some aivm_info \<longrightarrow>
        (\<forall>old old_info.
            installed_aivm_infos self = Some old \<and> map_of old aivm_uuid = Some old_info
            \<longrightarrow> is_loaded aivm_info = is_loaded old_info)
      \<and> ((\<forall>old. installed_aivm_infos self = Some old \<longrightarrow> map_of old aivm_uuid = None)
            \<longrightarrow> \<not> is_loaded aivm_info))
    \<and> (\<forall>aivm_uuid.
          aivm_uuid \<notin> set (entry_identities env (aivm_file_paths (installed_aivm_dir self)))
          \<longrightarrow> map_of aivm_infos aivm_uuid = None)"
proof -
  let ?k = "\<lambda>(aivm_uuid, aivm_info). name (manifest aivm_info)"
  from scanned_index [OF _ assms] obtain scanned where
    scanned: "scan_files env [] (aivm_file_paths (installed_aivm_dir self)) = Inr scanned"
    and infos: "aivm_infos =
      (if wait then update_entries env else (\<lambda>xs. xs))
        (migrate_load_state (installed_aivm_infos self) (sort_key ?k scanned))"
    and self': "self' = self\<lparr>installed_aivm_infos := Some aivm_infos\<rparr>"
    by blast
  have dist: "distinct (map fst scanned)"
    using scanned by (rule scan_files_distinct) simp
  have fresh: "\<forall>(u, i) \<in> set scanned. \<not> is_loaded i"
    using scanned by (rule scan_files_not_loaded) simp
  have keys: "fst ` set scanned
      \<subseteq> set (entry_identities env (aivm_file_paths (installed_aivm_dir self)))"
    using scan_files_on_disk [OF scanned] by simp
  have lookup: "map_of aivm_infos u = Some i \<Longrightarrow>
      \<exists>s. map_of scanned u = Some s \<and> \<not> is_loaded s \<and>
        is_loaded i =
          (case installed_aivm_infos self of
             None \<Rightarrow> False
           | Some old \<Rightarrow> (case map_of old u of None \<Rightarrow> False | Some prev \<Rightarrow> is_loaded prev))"
    for u i
  proof -
    assume a: "map_of aivm_infos u = Some i"
    then obtain m where m: "map_of (migrate_load_state (installed_aivm_infos self)
          (sort_key ?k scanned)) u = Some m" and im: "is_loaded i = is_loaded m"
      unfolding infos
      by (cases wait) (auto simp add: map_of_update_entries is_loaded_fetch_latest_version)
    from m obtain s where s: "map_of scanned u = Some s"
      and ms: "m = (case installed_aivm_infos self of
            None \<Rightarrow> s
          | Some old \<Rightarrow>
              (case map_of old u of
                 None \<Rightarrow> s
               | Some old_info \<Rightarrow> s\<lparr>is_loaded := is_loaded old_info\<rparr>))"
      by (auto simp add: map_of_migrate_load_state map_of_sort_key [OF dist])
    from s have "(u, s) \<in> set scanned"
      by (rule map_of_SomeD)
    with fresh have "\<not> is_loaded s"
      by auto
    with s im ms show ?thesis
      by (auto split: option.splits)
  qed
  show ?thesis
  proof (intro conjI allI impI)
    show "installed_aivm_infos self' = Some aivm_infos"
      using self' by simp
  next
    fix aivm_uuid aivm_info old old_info
    assume "map_of aivm_infos aivm_uuid = Some aivm_info"
      and "installed_aivm_infos self = Some old \<and> map_of old aivm_uuid = Some old_info"
    with lookup [of aivm_uuid aivm_info] show "is_loaded aivm_info = is_loaded old_info"
      by auto
  next
    fix aivm_uuid aivm_info
    assume "map_of aivm_infos aivm_uuid = Some aivm_info"
      and "\<forall>old. installed_aivm_infos self = Some old \<longrightarrow> map_of old aivm_uuid = None"
    with lookup [of aivm_uuid aivm_info] show "\<not> is_loaded aivm_info"
      by (auto split: option.splits)
  next
    fix aivm_uuid
    assume absent: "aivm_uuid
      \<notin> set (entry_identities env (aivm_file_paths (installed_aivm_dir self)))"
    show "map_of aivm_infos aivm_uuid = None"
    proof (rule ccontr)
      assume "map_of aivm_infos aivm_uuid \<noteq> None"
      then obtain i where "map_of aivm_infos aivm_uuid = Some i"
        by auto
      from lookup [OF this] obtain s where "map_of scanned aivm_uuid = Some s"
        by blast
      then have "aivm_uuid \<in> fst ` set scanned"
        by (auto dest: map_of_SomeD intro: rev_image_eqI)
      with keys absent show False
        by blast
    qed
  qed
qed

lemma ex_rescan:
  "(case get_installed_aivm_infos ex_env ex_manager_reloaded True True of
      (Inl e, self') \<Rightarrow> False
    | (Inr aivm_infos, self') \<Rightarrow>
        map (\<lambda>(aivm_uuid, aivm_info). (aivm_uuid, is_loaded aivm_info)) aivm_infos
          = [(''m2'', True), (''m4'', False)])"
  by code_simp

lemma ex_before:
  "(case installed_aivm_infos ex_manager_reloaded of
      None \<Rightarrow> False
    | Some old \<Rightarrow>
        map (\<lambda>(aivm_uuid, aivm_info). (aivm_uuid, is_loaded aivm_info)) old
          = [(''m2'', True), (''m1'', False)])"
  by code_simp

lemma ex_on_disk:
  "entry_identities ex_env (aivm_file_paths (installed_aivm_dir ex_manager_reloaded))
     = [''m2'', ''m4'']"
  by code_simp

lemma map_of_projection:
  "map_of (map (\<lambda>(k, v). (k, f v)) xs) k = map_option f (map_of xs k)"
  by (induction xs) auto

theorem forced_rescan_load_state_witness:
  "\<exists>old aivm_infos self'.
      installed_aivm_infos ex_manager_reloaded = Some old
    \<and> map (\<lambda>(aivm_uuid, aivm_info). (aivm_uuid, is_loaded aivm_info)) old
         = [(''m2'', True), (''m1'', False)]
    \<and> entry_identities ex_env (aivm_file_paths (installed_aivm_dir ex_manager_reloaded))
         = [''m2'', ''m4'']
    \<and> get_installed_aivm_infos ex_env ex_manager_reloaded True True = (Inr aivm_infos, self')
    \<and> installed_aivm_infos self' = Some aivm_infos
    \<and> map fst aivm_infos = [''m2'', ''m4'']
    \<and> (\<exists>kept. map_of aivm_infos ''m2'' = Some kept \<and> is_loaded kept)
    \<and> (\<exists>new. map_of aivm_infos ''m4'' = Some new \<and> \<not> is_loaded new)
    \<and> map_of aivm_infos ''m1'' = None"
proof -
  from ex_before obtain old where
    old: "installed_aivm_infos ex_manager_reloaded = Some old"
    and old_state: "map (\<lambda>(aivm_uuid, aivm_info). (aivm_uuid, is_loaded aivm_info)) old
         = [(''m2'', True), (''m1'', False)]"
    by (auto split: option.splits)
  from ex_rescan obtain aivm_infos self' where
    r: "get_installed_aivm_infos ex_env ex_manager_reloaded True True = (Inr aivm_infos, self')"
    and new_state: "map (\<lambda>(aivm_uuid, aivm_info). (aivm_uuid, is_loaded aivm_info)) aivm_infos
         = [(''m2'', True), (''m4'', False)]"
    by (auto split: prod.splits sum.splits)
  have keys: "map fst aivm_infos = [''m2'', ''m4'']"
    using arg_cong [OF new_state, of "map fst"] by (simp add: case_prod_unfold comp_def)
  have old_m2: "map_option is_loaded (map_of old ''m2'') = Some True"
    and old_m4: "map_option is_loaded (map_of old ''m4'') = None"
    using arg_cong [OF old_state, of "\<lambda>xs. map_of xs ''m2''"]
      arg_cong [OF old_state, of "\<lambda>xs. map_of xs ''m4''"]
    by (simp_all add: map_of_projection)
  obtain kept where kept: "map_of aivm_infos ''m2'' = Some kept"
    using arg_cong [OF new_state, of "\<lambda>xs. map_of xs ''m2''"]
    by (auto simp add: map_of_projection)
  obtain new where new: "map_of aivm_infos ''m4'' = Some new"
    using arg_cong [OF new_state, of "\<lambda>xs. map_of xs ''m4''"]
    by (auto simp add: map_of_projection)
  note t = forced_rescan_load_state [OF r]
  from t have c1: "installed_aivm_infos self' = Some aivm_infos"
    by blast
  from old_m2 obtain old_info where
    "map_of old ''m2'' = Some old_info" and "is_loaded old_info"
    by auto
  with t kept old have "is_loaded kept"
    by blast
  with kept have c2: "\<exists>kept. map_of aivm_infos ''m2'' = Some kept \<and> is_loaded kept"
    by blast
  from old_m4 have "map_of old ''m4'' = None"
    by simp
  with t new old have "\<not> is_loaded new"
    by auto
  with new have c3: "\<exists>new. map_of aivm_infos ''m4'' = Some new \<and> \<not> is_loaded new"
    by blast
  from t ex_on_disk have c4: "map_of aivm_infos ''m1'' = None"
    by simp
  show ?thesis
    apply (rule exI [of _ old], rule exI [of _ aivm_infos], rule exI [of _ self'])
    apply (intro conjI)
    apply (fact old old_state ex_on_disk r c1 keys c2 c3 c4)+
    done
qed

section \<open>Exceptions that leave the scan\<close>

text \<open>
  C3. The scan does not skip every malformed package: the directory below holds a valid
  package and one whose manifest is read without error but whose speaker icon is not a
  data URL. \<open>extract_base64_from_data_url\<close> raises \<open>ValueError\<close>, nothing in the
  loop catches it, and \<open>get_installed_aivm_infos\<close> ends with that exception: no index is
  returned and the cache stays empty.
\<close>

theorem scan_raises_on_bad_icon:
  "get_installed_aivm_infos ex_env
     \<lparr>installed_aivm_dir =
        [(''zoe.aivmx'', RegularFile True [1]), (''bad.aivmx'', RegularFile True [3])],
      installed_aivm_infos = None\<rparr> False False
   = (Inl (ValueError ''Invalid data URL format.''),
      \<lparr>installed_aivm_dir =
        [(''zoe.aivmx'', RegularFile True [1]), (''bad.aivmx'', RegularFile True [3])],
      installed_aivm_infos = None\<rparr>)"
  by code_simp


section \<open>Refusals of uninstall\<close>

lemma get_installed_aivm_infos_dir:
  "installed_aivm_dir (snd (get_installed_aivm_infos env self force wait)) = installed_aivm_dir self"
  by (simp add: get_installed_aivm_infos_def Let_def split: option.splits sum.splits)

lemma get_installed_aivm_infos_cached:
  "installed_aivm_infos self = Some cache \<Longrightarrow>
   get_installed_aivm_infos env self False wait = (Inr cache, self)"
  by (simp add: get_installed_aivm_infos_def)


text \<open>
  C6. With \<open>installed\<close> the index that \<open>uninstall_aivm\<close> reads (the cache, when there
  is one): an identity that is not in it is refused with status 404, and an identity that
  is its only entry is refused with status 400. In both cases the manager is the one the
  lookup left: the directory on disk is as before, and where a cache existed the whole
  manager (cache and directory) is unchanged.
\<close>

theorem uninstall_aivm_refusals:
  assumes "get_installed_aivm_infos env self False False = (Inr installed, self1)"
  shows "(map_of installed aivm_uuid = None \<longrightarrow>
            uninstall_aivm env self aivm_uuid = (Inl (HTTPException 404 ModelNotInstalled), self1))
       \<and> (aivm_uuid \<in> fst ` set installed \<and> length installed = 1 \<longrightarrow>
            uninstall_aivm env self aivm_uuid = (Inl (HTTPException 400 MustHaveOneModel), self1))
       \<and> installed_aivm_dir self1 = installed_aivm_dir self
       \<and> (\<forall>cache. installed_aivm_infos self = Some cache \<longrightarrow> self1 = self \<and> installed = cache)"
proof (intro conjI impI allI)
  assume "map_of installed aivm_uuid = None"
  with assms show "uninstall_aivm env self aivm_uuid
      = (Inl (HTTPException 404 ModelNotInstalled), self1)"
    by (simp add: uninstall_aivm_def)
next
  assume a: "aivm_uuid \<in> fst ` set installed \<and> length installed = 1"
  then obtain aivm_info where "map_of installed aivm_uuid = Some aivm_info"
    by (cases "map_of installed aivm_uuid") (auto simp add: map_of_eq_None_iff)
  with assms a show "uninstall_aivm env self aivm_uuid
      = (Inl (HTTPException 400 MustHaveOneModel), self1)"
    by (simp add: uninstall_aivm_def)
next
  from get_installed_aivm_infos_dir [of env self False False] assms
  show "installed_aivm_dir self1 = installed_aivm_dir self"
    by simp
next
  fix cache
  assume "installed_aivm_infos self = Some cache"
  from get_installed_aivm_infos_cached [OF this, of env False] assms
  show "self1 = self" and "installed = cache"
    by simp_all
qed

lemma ex_single:
  "(case installed_aivm_infos ex_manager_single of None \<Rightarrow> False
    | Some cache \<Rightarrow> map fst cache = [''m1''])
   \<and> installed_aivm_dir ex_manager_single = [(''zoe.aivmx'', RegularFile True [1])]"
  by code_simp

theorem uninstall_aivm_refusals_witness:
  "\<exists>cache.
      get_installed_aivm_infos ex_env ex_manager_single False False = (Inr cache, ex_manager_single)
    \<and> map fst cache = [''m1'']
    \<and> map_of cache ''m9'' = None
    \<and> uninstall_aivm ex_env ex_manager_single ''m9''
        = (Inl (HTTPException 404 ModelNotInstalled), ex_manager_single)
    \<and> ''m1'' \<in> fst ` set cache \<and> length cache = 1
    \<and> uninstall_aivm ex_env ex_manager_single ''m1''
        = (Inl (HTTPException 400 MustHaveOneModel), ex_manager_single)
    \<and> installed_aivm_dir ex_manager_single = [(''zoe.aivmx'', RegularFile True [1])]"
proof -
  from ex_single obtain cache where
    cache: "installed_aivm_infos ex_manager_single = Some cache"
    and keys: "map fst cache = [''m1'']"
    and dir: "installed_aivm_dir ex_manager_single = [(''zoe.aivmx'', RegularFile True [1])]"
    by (auto split: option.splits)
  have r: "get_installed_aivm_infos ex_env ex_manager_single False False
      = (Inr cache, ex_manager_single)"
    using cache by (rule get_installed_aivm_infos_cached)
  have absent: "map_of cache ''m9'' = None"
    using keys by (simp add: map_of_eq_None_iff flip: set_map)
  have present: "''m1'' \<in> fst ` set cache"
    using keys by (simp flip: set_map)
  have one: "length cache = 1"
    using arg_cong [OF keys, of length] by simp
  from uninstall_aivm_refusals [OF r, of "''m9''"] absent
  have c1: "uninstall_aivm ex_env ex_manager_single ''m9''
        = (Inl (HTTPException 404 ModelNotInstalled), ex_manager_single)"
    by blast
  from uninstall_aivm_refusals [OF r, of "''m1''"] present one
  have c2: "uninstall_aivm ex_env ex_manager_single ''m1''
        = (Inl (HTTPException 400 MustHaveOneModel), ex_manager_single)"
    by blast
  show ?thesis
    apply (rule exI [of _ cache])
    apply (intro conjI)
    apply (fact r keys absent c1 present one c2 dir)+
    done
qed


section \<open>Reconciliation with an unparseable version\<close>

text \<open>
  C9. A catalog answer whose AIVMX version string the version parser rejects does not
  leave the entry as it was: \<open>latest_version\<close> is assigned before the string is parsed,
  so the entry keeps the rejected string as its \<open>latest_version\<close> (only
  \<open>is_update_available\<close> keeps its prior value).
\<close>

theorem unparseable_version_overwrites_latest_version:
  "hub_get ex_env (AIVISHUB_API_BASE_URL @ ''/aivm-models/m2'')
     = Response 200 (ModelInfo (Some
         [\<lparr>model_type = Some ''AIVMX'', mf_version = Some ''latest''\<rparr>]))
   \<and> Version_parse ex_env ''latest'' = Inl (ValueError ''not a valid version'')
   \<and> latest_version (ex_entry ''m2'' ''Amy'') = ''1.0.0''
   \<and> fetch_latest_version ex_env (ex_entry ''m2'' ''Amy'')
       = (ex_entry ''m2'' ''Amy'')\<lparr>latest_version := ''latest''\<rparr>"
  by code_simp


end
